theory Spec2Isabelle
  imports Complex_Main "HOL-Library.Multiset"
begin

section \<open>Strings and JavaScript values\<close>

text \<open>
  Query text is a \<open>string\<close>. A filter value is a JavaScript value; the repository code
  only looks at its shape (undefined, null, array, string, anything else). Numbers are
  carried as integers; dates and plain objects take the same branch as numbers and
  booleans and are not modelled separately.
\<close>

datatype jsval =
    JUndefined
  | JNull
  | JBool bool
  | JNum int
  | JStr string
  | JArr "jsval list"

text \<open>Decimal rendering of a non-negative integer inside a template literal.\<close>

definition digit_char :: "nat \<Rightarrow> char" where
  "digit_char d = char_of (48 + d)"

fun show_nat :: "nat \<Rightarrow> string" where
  "show_nat n = (if n < 10 then [digit_char n] else show_nat (n div 10) @ [digit_char (n mod 10)])"

declare show_nat.simps [simp del]

text \<open>\<open>Array.prototype.join\<close>.\<close>

fun join :: "string \<Rightarrow> string list \<Rightarrow> string" where
  "join sep [] = []"
| "join sep [x] = x"
| "join sep (x # y # ys) = x @ sep @ join sep (y # ys)"

text \<open>The template fragment \<open>$${paramIndex}\<close>: a dollar sign followed by the index.\<close>

definition placeholder :: "nat \<Rightarrow> string" where
  "placeholder i = CHR ''$'' # show_nat i"

section \<open>BaseRepository.buildWhereClause\<close>

text \<open>
  \<open>FilterOptions\<close> is an object; \<open>Object.entries\<close> walks it in insertion order, so the
  filters are an association list in that order. The loop keeps three variables:
  \<open>conditions\<close>, \<open>params\<close> and \<open>paramIndex\<close>.
\<close>

type_synonym filter_options = "(string \<times> jsval) list"

record where_state =
  conditions :: "string list"
  params :: "jsval list"
  paramIndex :: nat

text \<open>
  \<open>value.map(() => f(paramIndex++))\<close>: one rendered index per element, counting up; the
  second component is \<open>paramIndex\<close> after the map. \<open>buildWhereClause\<close> renders with
  \<open>placeholder\<close>.
\<close>

fun map_counter :: "(nat \<Rightarrow> string) \<Rightarrow> nat \<Rightarrow> 'a list \<Rightarrow> string list \<times> nat" where
  "map_counter f i [] = ([], i)"
| "map_counter f i (v # vs) =
     (let (rest, j) = map_counter f (Suc i) vs in (f i # rest, j))"

fun is_present :: "jsval \<Rightarrow> bool" where
  "is_present JUndefined = False"
| "is_present JNull = False"
| "is_present _ = True"

definition where_step :: "where_state \<Rightarrow> string \<times> jsval \<Rightarrow> where_state" where
  "where_step st kv =
     (case kv of (key, val) \<Rightarrow>
        if is_present val then
          (case val of
             JArr vs \<Rightarrow>
               (let (phs, j) = map_counter placeholder (paramIndex st) vs
                in \<lparr>conditions = conditions st @ [key @ '' IN ('' @ join '', '' phs @ '')''],
                    params = params st @ vs,
                    paramIndex = j\<rparr>)
           | JStr s \<Rightarrow>
               (if CHR ''%'' \<in> set s
                then \<lparr>conditions = conditions st @ [key @ '' ILIKE '' @ placeholder (paramIndex st)],
                      params = params st @ [val],
                      paramIndex = Suc (paramIndex st)\<rparr>
                else \<lparr>conditions = conditions st @ [key @ '' = '' @ placeholder (paramIndex st)],
                      params = params st @ [val],
                      paramIndex = Suc (paramIndex st)\<rparr>)
           | _ \<Rightarrow>
               \<lparr>conditions = conditions st @ [key @ '' = '' @ placeholder (paramIndex st)],
                params = params st @ [val],
                paramIndex = Suc (paramIndex st)\<rparr>)
        else st)"

definition where_loop :: "filter_options \<Rightarrow> where_state" where
  "where_loop filters = foldl where_step \<lparr>conditions = [], params = [], paramIndex = 1\<rparr> filters"

definition buildWhereClause :: "filter_options \<Rightarrow> string \<times> jsval list" where
  "buildWhereClause filters =
     (let st = where_loop filters;
          clause = (if length (conditions st) > 0
                    then ''WHERE '' @ join '' AND '' (conditions st) else [])
      in (clause, params st))"

subsection \<open>The rule per value shape, as the specification words it\<close>

text \<open>
  The specification describes \<open>buildWhere\<close> by the shape of each present value: a list
  becomes an \<open>IN\<close> clause with one placeholder per element, a string containing the wildcard
  marker becomes a case-insensitive partial match, anything else an equality. The
  definitions below follow those words; the theorems compare them with the loop above.
\<close>

datatype shape = ListShape nat | WildcardShape | PlainShape

fun shape_of :: "jsval \<Rightarrow> shape" where
  "shape_of (JArr vs) = ListShape (length vs)"
| "shape_of (JStr s) = (if CHR ''%'' \<in> set s then WildcardShape else PlainShape)"
| "shape_of _ = PlainShape"

fun shape_width :: "shape \<Rightarrow> nat" where
  "shape_width (ListShape n) = n"
| "shape_width _ = 1"

fun shape_condition :: "string \<Rightarrow> shape \<Rightarrow> nat \<Rightarrow> string" where
  "shape_condition key (ListShape n) i =
     key @ '' IN ('' @ join '', '' (map placeholder [i ..< i + n]) @ '')''"
| "shape_condition key WildcardShape i = key @ '' ILIKE '' @ placeholder i"
| "shape_condition key PlainShape i = key @ '' = '' @ placeholder i"

fun bound_values :: "jsval \<Rightarrow> jsval list" where
  "bound_values (JArr vs) = vs"
| "bound_values v = [v]"

fun spec_conditions :: "nat \<Rightarrow> filter_options \<Rightarrow> string list" where
  "spec_conditions i [] = []"
| "spec_conditions i ((k, v) # r) =
     (if is_present v
      then shape_condition k (shape_of v) i # spec_conditions (i + shape_width (shape_of v)) r
      else spec_conditions i r)"

definition spec_params :: "filter_options \<Rightarrow> jsval list" where
  "spec_params fs = concat (map bound_values (filter is_present (map snd fs)))"

section \<open>BaseRepository.buildLimitClause\<close>

text \<open>
  \<open>PaginationOptions\<close> has three optional numbers. They are modelled as integers (page
  numbers, page sizes and row offsets are whole numbers). A JavaScript condition
  \<open>if (x)\<close> on an optional number holds when the number is given and is not zero.
\<close>

record pagination_options =
  page :: "int option"
  limit :: "int option"
  offset :: "int option"

fun truthy :: "int option \<Rightarrow> bool" where
  "truthy None = False"
| "truthy (Some n) = (n \<noteq> 0)"

text \<open>\<open>x || d\<close> on an optional number.\<close>

fun or_default :: "int option \<Rightarrow> int \<Rightarrow> int" where
  "or_default None d = d"
| "or_default (Some n) d = (if n \<noteq> 0 then n else d)"





section \<open>ProductRepository.search\<close>

text \<open>
  \<open>SearchFilters\<close>: every field is optional. Dates are carried as integer timestamps. The
  field \<open>countryOfOrigin\<close> is declared but never read by \<open>search\<close>.
\<close>

record search_filters =
  query :: "string option"
  category :: "string list option"
  brand_filter :: "string list option"
  country :: "string list option"
  countryOfOrigin :: "string list option"
  priceRange :: "(int \<times> int) option"
  isRegional :: "bool option"
  verificationStatus :: "string list option"
  dateRange :: "(int \<times> int) option"
  isNpd :: "bool option"

definition nl :: string where
  "nl = [CHR 0x0A]"

definition indent :: "nat \<Rightarrow> string" where
  "indent n = replicate n (CHR '' '')"

text \<open>The four \<open>COALESCE\<close> lines of the text-search vector, at a given indentation.\<close>

definition coalesce_lines :: "nat \<Rightarrow> string" where
  "coalesce_lines n =
     indent n @ ''COALESCE(name, '' @ [CHR 0x27, CHR 0x27] @ '') || ' ' || '' @ nl @
     indent n @ ''COALESCE(brand, '' @ [CHR 0x27, CHR 0x27] @ '') || ' ' || '' @ nl @
     indent n @ ''COALESCE(description, '' @ [CHR 0x27, CHR 0x27] @ '') || ' ' || '' @ nl @
     indent n @ ''COALESCE(ingredients_list, '' @ [CHR 0x27, CHR 0x27] @ '')'' @ nl"

text \<open>
  The full-text condition. The source interpolates \<open>${paramIndex}\<close> without a leading
  dollar sign, so the text carries the bare number.
\<close>

definition fulltext_condition :: "nat \<Rightarrow> string" where
  "fulltext_condition i =
     nl @ indent 8 @ ''to_tsvector('english', '' @ nl @
     coalesce_lines 10 @
     indent 8 @ '') @@ plainto_tsquery('english', '' @ show_nat i @ '')'' @ nl @
     indent 6"

definition ranked_order_clause :: string where
  "ranked_order_clause =
     nl @ indent 8 @ ''ORDER BY '' @ nl @
     indent 10 @ ''ts_rank('' @ nl @
     indent 12 @ ''to_tsvector('english', '' @ nl @
     coalesce_lines 14 @
     indent 12 @ ''), '' @ nl @
     indent 12 @ ''plainto_tsquery('english', $1)'' @ nl @
     indent 10 @ '') DESC,'' @ nl @
     indent 10 @ ''ai_confidence_score DESC,'' @ nl @
     indent 10 @ ''created_at DESC'' @ nl @
     indent 6"

text \<open>\<open>if (searchFilters.query)\<close>: a string is truthy when it is given and not empty.\<close>

fun truthy_string :: "string option \<Rightarrow> bool" where
  "truthy_string None = False"
| "truthy_string (Some s) = (s \<noteq> [])"

definition query_step :: "string option \<Rightarrow> where_state \<Rightarrow> where_state" where
  "query_step q st =
     (case q of
        None \<Rightarrow> st
      | Some s \<Rightarrow>
          if s \<noteq> [] then
            \<lparr>conditions = conditions st @ [fulltext_condition (paramIndex st)],
             params = params st @ [JStr s],
             paramIndex = Suc (paramIndex st)\<rparr>
          else st)"

text \<open>
  The four list filters (category, brand, country, verification status) share one shape:
  \<open>xs.map(() => `${paramIndex++}`).join(', ')\<close> inside \<open>column IN (...)\<close>, then
  \<open>params.push(...xs)\<close>.
\<close>

definition in_step :: "string \<Rightarrow> string list option \<Rightarrow> where_state \<Rightarrow> where_state" where
  "in_step column vals st =
     (case vals of
        None \<Rightarrow> st
      | Some xs \<Rightarrow>
          if length xs > 0 then
            (let (phs, j) = map_counter show_nat (paramIndex st) xs
             in \<lparr>conditions = conditions st @ [column @ '' IN ('' @ join '', '' phs @ '')''],
                 params = params st @ map JStr xs,
                 paramIndex = j\<rparr>)
          else st)"

definition between_step :: "string \<Rightarrow> (int \<times> int) option \<Rightarrow> where_state \<Rightarrow> where_state" where
  "between_step column bounds st =
     (case bounds of
        None \<Rightarrow> st
      | Some (lo, hi) \<Rightarrow>
          \<lparr>conditions = conditions st @
             [column @ '' BETWEEN '' @ show_nat (paramIndex st) @ '' AND '' @
              show_nat (paramIndex st + 1)],
           params = params st @ [JNum lo, JNum hi],
           paramIndex = paramIndex st + 2\<rparr>)"

definition flag_step :: "string \<Rightarrow> bool option \<Rightarrow> where_state \<Rightarrow> where_state" where
  "flag_step column flag st =
     (case flag of
        None \<Rightarrow> st
      | Some b \<Rightarrow>
          \<lparr>conditions = conditions st @ [column @ '' = '' @ show_nat (paramIndex st)],
           params = params st @ [JBool b],
           paramIndex = Suc (paramIndex st)\<rparr>)"

definition search_conditions :: "search_filters \<Rightarrow> where_state" where
  "search_conditions searchFilters =
     (between_step ''created_at'' (dateRange searchFilters)
      (in_step ''verification_status'' (verificationStatus searchFilters)
      (flag_step ''is_npd'' (isNpd searchFilters)
      (flag_step ''is_regional_exclusive'' (isRegional searchFilters)
      (between_step ''mrp'' (priceRange searchFilters)
      (in_step ''country'' (country searchFilters)
      (in_step ''brand'' (brand_filter searchFilters)
      (in_step ''category'' (category searchFilters)
      (query_step (query searchFilters)
         \<lparr>conditions = [], params = [], paramIndex = 1\<rparr>)))))))))"

text \<open>
  The two queries \<open>search\<close> sends and their parameter lists. The main query's last line is
  \<open>LIMIT ${paramIndex} OFFSET ${paramIndex + 1}\<close>, again without dollar signs, while
  \<open>limit\<close> and \<open>offset\<close> are appended to the parameters.
\<close>

record search_queries =
  mainQuery :: string
  mainParams :: "jsval list"
  countQuery :: string
  countParams :: "jsval list"

definition search_limit :: "pagination_options \<Rightarrow> int" where
  "search_limit pagination = or_default (limit pagination) 20"

definition search_offset :: "pagination_options \<Rightarrow> int" where
  "search_offset pagination =
     (if truthy (offset pagination) then or_default (offset pagination) 0
      else if truthy (page pagination)
           then (or_default (page pagination) 0 - 1) * search_limit pagination
           else 0)"

definition search_where_clause :: "where_state \<Rightarrow> string" where
  "search_where_clause st =
     (if length (conditions st) > 0 then ''WHERE '' @ join '' AND '' (conditions st) else [])"

definition search :: "search_filters \<Rightarrow> pagination_options \<Rightarrow> search_queries" where
  "search searchFilters pagination =
     (let st = search_conditions searchFilters;
          whereClause = search_where_clause st;
          orderClause = (if truthy_string (query searchFilters) then ranked_order_clause
                         else ''ORDER BY created_at DESC'')
      in \<lparr>mainQuery =
            nl @ indent 6 @ ''SELECT * FROM products'' @ nl @
            indent 6 @ whereClause @ nl @
            indent 6 @ orderClause @ nl @
            indent 6 @ ''LIMIT '' @ show_nat (paramIndex st) @ '' OFFSET '' @
              show_nat (paramIndex st + 1) @ nl @
            indent 4,
          mainParams = params st @ [JNum (search_limit pagination), JNum (search_offset pagination)],
          countQuery =
            nl @ indent 6 @ ''SELECT COUNT(*) as total FROM products'' @ nl @
            indent 6 @ whereClause @ nl @
            indent 4,
          countParams = params st\<rparr>)"

section \<open>Reward and tier\<close>

text \<open>
  The tier of a user is a value of the store's \<open>user_tier\<close> enumeration (the same five
  names as the type of \<open>User.user_tier\<close>).
\<close>

datatype user_tier = Bronze | Silver | Gold | Platinum | Diamond

subsection \<open>calculateReward\<close>






subsection \<open>Tier selection in the store: update_user_tier\<close>

text \<open>
  A row of \<open>user_tier_configs\<close> and the statistics the function gathers for one user.
  The store's exact decimals are rationals.
\<close>

record tier_config =
  tier :: user_tier
  min_submissions :: int
  min_quality_score :: rat
  min_approval_rate :: rat

record user_stats =
  total_submissions :: int
  quality_score :: rat
  approval_rate :: rat

text \<open>The \<open>WHERE\<close> condition of the selection.\<close>

definition meets :: "user_stats \<Rightarrow> tier_config \<Rightarrow> bool" where
  "meets stats c =
     (total_submissions stats \<ge> min_submissions c
      \<and> quality_score stats \<ge> min_quality_score c
      \<and> approval_rate stats \<ge> min_approval_rate c)"

text \<open>\<open>ORDER BY min_submissions DESC, min_quality_score DESC\<close>: when \<open>d\<close> sorts before \<open>c\<close>.\<close>

definition outranks :: "tier_config \<Rightarrow> tier_config \<Rightarrow> bool" where
  "outranks d c =
     (min_submissions d > min_submissions c
      \<or> (min_submissions d = min_submissions c \<and> min_quality_score d > min_quality_score c))"

text \<open>
  \<open>LIMIT 1\<close> after that ordering: a row that no other row outranks. Among rows that tie
  on both columns the store may return any; the model returns the earliest.
\<close>

fun first_ranked :: "tier_config list \<Rightarrow> tier_config option" where
  "first_ranked [] = None"
| "first_ranked (c # cs) =
     (case first_ranked cs of
        None \<Rightarrow> Some c
      | Some d \<Rightarrow> if outranks d c then Some d else Some c)"

definition update_user_tier :: "tier_config list \<Rightarrow> user_stats \<Rightarrow> user_tier" where
  "update_user_tier user_tier_configs stats =
     (case first_ranked (filter (meets stats) user_tier_configs) of
        None \<Rightarrow> Bronze
      | Some c \<Rightarrow> tier c)"

subsection \<open>Tier selection in UserRepository.updateUserTier\<close>


section \<open>Submission route: the duplicate check of POST /\<close>

subsection \<open>The store's ILIKE\<close>

text \<open>
  The check compares with \<open>column ILIKE $n\<close>, the submitted text being the pattern. In the
  store's pattern language \<open>%\<close> matches any run of characters, \<open>_\<close> any single character,
  and a backslash takes the next pattern character literally; letters compare without
  regard to case. A pattern that ends in a backslash is an error (\<open>None\<close>).
\<close>

definition lower_char :: "char \<Rightarrow> char" where
  "lower_char c =
     (let n = (of_char c :: nat) in if 65 \<le> n \<and> n \<le> 90 then char_of (n + 32) else c)"

fun like_match :: "string \<Rightarrow> string \<Rightarrow> bool option" where
  "like_match [] t = Some (t = [])"
| "like_match (p # ps) t =
     (if p = CHR 0x5C then
        (case ps of
           [] \<Rightarrow> None
         | q # qs \<Rightarrow>
             (case t of
                [] \<Rightarrow> Some False
              | c # cs \<Rightarrow> if lower_char q = lower_char c then like_match qs cs else Some False))
      else if p = CHR ''%'' then
        (case like_match ps t of
           Some False \<Rightarrow> (case t of [] \<Rightarrow> Some False | c # cs \<Rightarrow> like_match (p # ps) cs)
         | r \<Rightarrow> r)
      else if p = CHR ''_'' then
        (case t of [] \<Rightarrow> Some False | c # cs \<Rightarrow> like_match ps cs)
      else
        (case t of
           [] \<Rightarrow> Some False
         | c # cs \<Rightarrow> if lower_char p = lower_char c then like_match ps cs else Some False))"

text \<open>\<open>txt ILIKE pattern\<close>.\<close>

definition pg_ilike :: "string \<Rightarrow> string \<Rightarrow> bool option" where
  "pg_ilike txt pattern = like_match pattern txt"

subsection \<open>The handler\<close>

text \<open>
  A row of \<open>npd_submissions\<close> (the columns the check reads; \<open>created_at\<close> in seconds) and
  the part of the request the handler uses. The store holds the submissions and, per user
  id, the column \<open>total_submissions\<close> of \<open>users\<close>.
\<close>

record submission_row =
  user_id :: string
  submitted_product_name :: string
  submitted_brand :: string
  created_at :: int

record submission_request =
  req_user_id :: string
  body_product_name :: string
  body_brand :: string

record platform_db =
  npd_submissions :: "submission_row list"
  users_total_submissions :: "string \<Rightarrow> int"

text \<open>
  The \<open>WHERE\<close> condition of the duplicate check for one row:
  \<open>user_id = $1 AND submitted_product_name ILIKE $2 AND submitted_brand ILIKE $3 AND
  created_at > NOW() - INTERVAL '24 hours'\<close>.
\<close>

definition duplicate_row :: "int \<Rightarrow> submission_request \<Rightarrow> submission_row \<Rightarrow> bool option" where
  "duplicate_row now req s =
     (if user_id s \<noteq> req_user_id req then Some False
      else
        (case pg_ilike (submitted_product_name s) (body_product_name req) of
           None \<Rightarrow> None
         | Some False \<Rightarrow> Some False
         | Some True \<Rightarrow>
             (case pg_ilike (submitted_brand s) (body_brand req) of
                None \<Rightarrow> None
              | Some False \<Rightarrow> Some False
              | Some True \<Rightarrow> Some (created_at s > now - 24 * 3600))))"

text \<open>The rows the check returns, or \<open>None\<close> when the query fails.\<close>

fun duplicateCheck :: "int \<Rightarrow> submission_request \<Rightarrow> submission_row list \<Rightarrow> submission_row list option" where
  "duplicateCheck now req [] = Some []"
| "duplicateCheck now req (s # ss) =
     (case duplicate_row now req s of
        None \<Rightarrow> None
      | Some b \<Rightarrow>
          (case duplicateCheck now req ss of
             None \<Rightarrow> None
           | Some found \<Rightarrow> Some (if b then s # found else found)))"

text \<open>
  The handler returns the HTTP status and the store afterwards: 400 when validation
  fails (\<open>isLength({ min: 2 })\<close> on both fields), 409 when the check finds a row, 500 when
  a query throws, 201 after the insert and the counter update.
\<close>

definition create_submission :: "int \<Rightarrow> submission_request \<Rightarrow> platform_db \<Rightarrow> nat \<times> platform_db" where
  "create_submission now req db =
     (if length (body_product_name req) < 2 \<or> length (body_brand req) < 2 then (400, db)
      else
        (case duplicateCheck now req (npd_submissions db) of
           None \<Rightarrow> (500, db)
         | Some found \<Rightarrow>
             if length found > 0 then (409, db)
             else
               (201,
                db\<lparr>npd_submissions := npd_submissions db @
                      [\<lparr>user_id = req_user_id req,
                        submitted_product_name = body_product_name req,
                        submitted_brand = body_brand req,
                        created_at = now\<rparr>],
                    users_total_submissions :=
                      (users_total_submissions db)
                        (req_user_id req := users_total_submissions db (req_user_id req) + 1)\<rparr>)))"

text \<open>
  What the claim calls an exact match: the same user, name and brand equal up to letter
  case, created within the preceding 24 hours.
\<close>

definition same_ignoring_case :: "string \<Rightarrow> string \<Rightarrow> bool" where
  "same_ignoring_case a b = (map lower_char a = map lower_char b)"

definition exact_recent_match :: "int \<Rightarrow> submission_request \<Rightarrow> submission_row \<Rightarrow> bool" where
  "exact_recent_match now req s =
     (user_id s = req_user_id req
      \<and> same_ignoring_case (submitted_product_name s) (body_product_name req)
      \<and> same_ignoring_case (submitted_brand s) (body_brand req)
      \<and> created_at s > now - 24 * 3600)"

text \<open>A text with none of the three characters the pattern language treats specially.\<close>

definition no_wildcards :: "string \<Rightarrow> bool" where
  "no_wildcards s = list_all (\<lambda>c. c \<noteq> CHR ''%'' \<and> c \<noteq> CHR ''_'' \<and> c \<noteq> CHR 0x5C) s"

section \<open>ProductRepository.findSimilarProducts\<close>

datatype verification = Pending | Verified | Rejected | Flagged

text \<open>The columns of a product the query reads, and the row's id.\<close>

record product =
  product_key :: string
  name :: string
  brand :: string
  verification_status :: verification

text \<open>
  \<open>similarity\<close> is a function of the store's trigram extension; the query is modelled for
  any such function. Scores are exact rationals. The query keeps the verified rows whose
  score exceeds the threshold, orders them by score, highest first, and keeps ten. Rows
  with equal scores may come in any order from the store; the model keeps their catalog
  order.
\<close>

definition sim_score :: "(string \<Rightarrow> string \<Rightarrow> rat) \<Rightarrow> string \<Rightarrow> string \<Rightarrow> product \<Rightarrow> rat" where
  "sim_score similarity nm br p = similarity (name p) nm + similarity (brand p) br"


definition findSimilarProducts ::
  "(string \<Rightarrow> string \<Rightarrow> rat) \<Rightarrow> product list \<Rightarrow> string \<Rightarrow> string \<Rightarrow> rat \<Rightarrow> (product \<times> rat) list" where
  "findSimilarProducts similarity products nm br threshold =
     take 10
       (sort_key (\<lambda>r. - snd r)
          (map (\<lambda>p. (p, sim_score similarity nm br p))
             (filter (\<lambda>p. sim_score similarity nm br p > threshold
                          \<and> verification_status p = Verified) products)))"

subsection \<open>A trigram similarity\<close>

text \<open>
  The extension's measure as its documentation describes it: the text is lower-cased and
  cut into words of letters and digits, each word is padded with two blanks in front and
  one behind, and the similarity of two texts is the number of three-character sequences
  they share divided by the number either has. It is used here to run the query on
  concrete catalogs.
\<close>

definition is_alnum :: "char \<Rightarrow> bool" where
  "is_alnum c =
     (let n = (of_char c :: nat)
      in (48 \<le> n \<and> n \<le> 57) \<or> (65 \<le> n \<and> n \<le> 90) \<or> (97 \<le> n \<and> n \<le> 122))"

fun words_from :: "string \<Rightarrow> string \<Rightarrow> string list" where
  "words_from cur [] = (if cur = [] then [] else [cur])"
| "words_from cur (c # cs) =
     (if is_alnum c then words_from (cur @ [c]) cs
      else if cur = [] then words_from [] cs
      else cur # words_from [] cs)"

fun windows3 :: "string \<Rightarrow> string list" where
  "windows3 (a # b # c # r) = [a, b, c] # windows3 (b # c # r)"
| "windows3 _ = []"

definition trigrams :: "string \<Rightarrow> string list" where
  "trigrams s =
     remdups (concat (map (\<lambda>w. windows3 (''  '' @ w @ '' '')) (words_from [] (map lower_char s))))"

definition trgm_similarity :: "string \<Rightarrow> string \<Rightarrow> rat" where
  "trgm_similarity a b =
     (let ta = trigrams a; tb = trigrams b;
          shared = length (filter (\<lambda>t. t \<in> set tb) ta);
          either = length ta + length tb - shared
      in if either = 0 then 0 else of_nat shared / of_nat either)"

section \<open>Errors, create and bulkInsert\<close>

text \<open>
  The four error classes of \<open>errors.ts\<close>. A \<open>DatabaseError\<close> carries a message and an
  optional code; the others a message.
\<close>

datatype repo_error =
    DatabaseError string "string option"
  | ValidationError string
  | NotFoundError string
  | DuplicateError string

text \<open>
  What the driver answers to a statement: rows, or an error with a message and possibly a
  provider code (\<open>23505\<close> is the code of a uniqueness violation).
\<close>

datatype 'r pg_outcome = PgRows "'r list" | PgError string "string option"

text \<open>\<open>(error as any).code || 'UNKNOWN'\<close>.\<close>

fun code_or_unknown :: "string option \<Rightarrow> string" where
  "code_or_unknown None = ''UNKNOWN''"
| "code_or_unknown (Some c) = (if c = [] then ''UNKNOWN'' else c)"

text \<open>
  \<open>DatabaseConnection.query\<close> and \<open>queryWithClient\<close> wrap a driver error in the same way:
  a \<open>DatabaseError\<close> with the driver's message and its code.
\<close>

definition wrap_outcome :: "'r pg_outcome \<Rightarrow> repo_error + 'r list" where
  "wrap_outcome out =
     (case out of
        PgRows rs \<Rightarrow> Inr rs
      | PgError msg code \<Rightarrow> Inl (DatabaseError msg (Some (code_or_unknown code))))"

text \<open>\<open>dbError.code\<close> of a caught error: only \<open>DatabaseError\<close> has the property.\<close>

fun error_code :: "repo_error \<Rightarrow> string option" where
  "error_code (DatabaseError msg code) = code"
| "error_code _ = None"

text \<open>
  The \<open>INSERT\<close> statement both \<open>create\<close> and \<open>bulkInsert\<close> build from the keys and values of
  the data object, the template's lines indented by \<open>n\<close> blanks.
\<close>

definition insert_query :: "nat \<Rightarrow> string \<Rightarrow> (string \<times> jsval) list \<Rightarrow> string \<times> jsval list" where
  "insert_query n tableName data =
     (let fields = map fst data;
          vals = map snd data;
          placeholders = join '', '' (map (\<lambda>index. placeholder (index + 1)) [0 ..< length vals])
      in (nl @ indent n @ ''INSERT INTO '' @ tableName @ '' ('' @ join '', '' fields @ '')'' @ nl @
          indent n @ ''VALUES ('' @ placeholders @ '')'' @ nl @
          indent n @ ''RETURNING *'' @ nl @
          indent (n - 2),
          vals))"

subsection \<open>create\<close>

text \<open>
  The store is a function from the statement to the driver's answer. The \<open>try\<close> block
  either returns the first row or throws; the \<open>catch\<close> block rethrows every error as a
  \<open>DatabaseError\<close>, with a message of its own for code 23505.
\<close>

definition create_try :: "string \<Rightarrow> 'r pg_outcome \<Rightarrow> repo_error + 'r" where
  "create_try tableName out =
     (case wrap_outcome out of
        Inl e \<Rightarrow> Inl e
      | Inr rs \<Rightarrow>
          (case rs of
             [] \<Rightarrow> Inl (DatabaseError (''Failed to create '' @ tableName) (Some ''NO_ROWS_RETURNED''))
           | r # _ \<Rightarrow> Inr r))"

definition create_catch :: "string \<Rightarrow> repo_error \<Rightarrow> repo_error" where
  "create_catch tableName dbError =
     (if error_code dbError = Some ''23505''
      then DatabaseError (''Duplicate entry in '' @ tableName) (error_code dbError)
      else DatabaseError (''Failed to create '' @ tableName) (error_code dbError))"

definition create ::
  "(string \<times> jsval list \<Rightarrow> 'r pg_outcome) \<Rightarrow> string \<Rightarrow> (string \<times> jsval) list \<Rightarrow> repo_error + 'r" where
  "create store tableName data =
     (case create_try tableName (store (insert_query 6 tableName data)) of
        Inr r \<Rightarrow> Inr r
      | Inl e \<Rightarrow> Inl (create_catch tableName e))"

fun is_DuplicateError :: "repo_error \<Rightarrow> bool" where
  "is_DuplicateError (DuplicateError m) = True"
| "is_DuplicateError _ = False"

fun is_DatabaseError :: "repo_error \<Rightarrow> bool" where
  "is_DatabaseError (DatabaseError m c) = True"
| "is_DatabaseError _ = False"

subsection \<open>A client connection and transaction\<close>


type_synonym 'r store = "'r list \<Rightarrow> string \<times> jsval list \<Rightarrow> 'r pg_outcome"





subsection \<open>bulkInsert\<close>




subsection \<open>The catch block of UserRepository.createUser\<close>

text \<open>
  \<open>createUser\<close> sends its own \<open>INSERT\<close> and maps code 23505 to a \<open>DuplicateError\<close>, whose
  constructor builds the message from the resource and the field.
\<close>

definition createUser_catch :: "repo_error \<Rightarrow> repo_error" where
  "createUser_catch dbError =
     (if error_code dbError = Some ''23505''
      then DuplicateError (''User'' @ '' with '' @ ''email or phone'' @ '' already exists'')
      else DatabaseError ''Failed to create user'' (error_code dbError))"

section \<open>Concrete stores used to run the model\<close>


text \<open>A search with no filter set, and a pagination with no field set.\<close>

definition no_filters :: search_filters where
  "no_filters =
     \<lparr>query = None, category = None, brand_filter = None, country = None,
      countryOfOrigin = None, priceRange = None, isRegional = None,
      verificationStatus = None, dateRange = None, isNpd = None\<rparr>"

definition no_pagination :: pagination_options where
  "no_pagination = \<lparr>page = None, limit = None, offset = None\<rparr>"


definition choco_pending :: product where
  "choco_pending =
     \<lparr>product_key = ''p2'', name = ''Choco Munch'', brand = ''ABC'', verification_status = Pending\<rparr>"

definition milk_verified :: product where
  "milk_verified =
     \<lparr>product_key = ''p3'', name = ''Milk Bar'', brand = ''XYZ'', verification_status = Verified\<rparr>"

text \<open>
  A product name with a backslash, \<open>AC\DC\<close>, a submission of it made at second 1000, and
  the same user's request to submit it again.
\<close>

definition acdc :: string where
  "acdc = ''AC'' @ [CHR 0x5C] @ ''DC''"

definition acdc_row :: submission_row where
  "acdc_row =
     \<lparr>user_id = ''u1'', submitted_product_name = acdc, submitted_brand = ''Acme'',
      created_at = 1000\<rparr>"

definition acdc_request :: submission_request where
  "acdc_request = \<lparr>req_user_id = ''u1'', body_product_name = acdc, body_brand = ''Acme''\<rparr>"

definition choco_row :: submission_row where
  "choco_row =
     \<lparr>user_id = ''u1'', submitted_product_name = ''Choco Munch'', submitted_brand = ''ABC'',
      created_at = 1000\<rparr>"

definition choco_request :: submission_request where
  "choco_request =
     \<lparr>req_user_id = ''u1'', body_product_name = ''CHOCO munch'', body_brand = ''abc''\<rparr>"

section \<open>Properties of buildWhereClause\<close>

lemma map_counter_eq:
  "map_counter f i vs = (map f [i ..< i + length vs], i + length vs)"
proof (induction vs arbitrary: i)
  case Nil
  then show ?case by simp
next
  case (Cons v vs)
  have "[i ..< i + length (v # vs)] = i # [Suc i ..< Suc i + length vs]"
    by (subst upt_conv_Cons) simp_all
  with Cons show ?case by simp
qed

lemma bound_values_length:
  "is_present v \<Longrightarrow> length (bound_values v) = shape_width (shape_of v)"
  by (cases v) auto

lemma where_step_present:
  "is_present v \<Longrightarrow> where_step st (k, v) =
     \<lparr>conditions = conditions st @ [shape_condition k (shape_of v) (paramIndex st)],
      params = params st @ bound_values v,
      paramIndex = paramIndex st + shape_width (shape_of v)\<rparr>"
  by (cases v) (auto simp: where_step_def map_counter_eq)

lemma where_step_absent: "\<not> is_present v \<Longrightarrow> where_step st (k, v) = st"
  by (simp add: where_step_def)

lemma foldl_where_step:
  "foldl where_step st fs =
     \<lparr>conditions = conditions st @ spec_conditions (paramIndex st) fs,
      params = params st @ spec_params fs,
      paramIndex = paramIndex st + length (spec_params fs)\<rparr>"
proof (induction fs arbitrary: st)
  case Nil
  then show ?case by (simp add: spec_params_def)
next
  case (Cons kv fs)
  obtain k v where kv: "kv = (k, v)" by (cases kv)
  show ?case
  proof (cases "is_present v")
    case True
    then show ?thesis
      using Cons [of "where_step st (k, v)"]
      by (simp add: kv where_step_present spec_params_def bound_values_length)
  next
    case False
    then show ?thesis
      using Cons [of st] by (simp add: kv where_step_absent spec_params_def)
  qed
qed

lemma buildWhereClause_spec:
  "buildWhereClause fs =
     ((if spec_conditions 1 fs = [] then []
       else ''WHERE '' @ join '' AND '' (spec_conditions 1 fs)),
      spec_params fs)"
  by (simp add: buildWhereClause_def where_loop_def foldl_where_step Let_def)

lemma spec_conditions_length:
  "length (spec_conditions i fs) = length (filter is_present (map snd fs))"
  by (induction i fs rule: spec_conditions.induct) auto

lemma placeholder_1: "placeholder (Suc 0) = ''$1''"
  by code_simp

text \<open>
  Claim C8. For every filter map, \<open>buildWhereClause\<close> translates each present value by its
  shape: a list value becomes an \<open>IN\<close> clause with exactly one placeholder per element, a
  string containing the wildcard marker \<open>%\<close> becomes an \<open>ILIKE\<close> match, any other value an
  equality; one condition is produced per present filter, the conditions are joined with
  \<open>AND\<close>, and a filter map with no present value (in particular the empty one) gives no
  \<open>WHERE\<close> clause.
\<close>

theorem buildWhereClause_by_shape:
  "fst (buildWhereClause fs) =
     (if filter is_present (map snd fs) = [] then []
      else ''WHERE '' @ join '' AND '' (spec_conditions 1 fs))
   \<and> length (spec_conditions 1 fs) = length (filter is_present (map snd fs))
   \<and> buildWhereClause [] = ([], [])
   \<and> buildWhereClause [(k, JArr vs)] =
        (''WHERE '' @ k @ '' IN ('' @ join '', '' (map placeholder [1 ..< 1 + length vs]) @ '')'', vs)
   \<and> length (map placeholder [1 ..< 1 + length vs]) = length vs
   \<and> (CHR ''%'' \<in> set s \<longrightarrow>
        buildWhereClause [(k, JStr s)] = (''WHERE '' @ k @ '' ILIKE $1'', [JStr s]))
   \<and> (is_present v \<and> shape_of v = PlainShape \<longrightarrow>
        buildWhereClause [(k, v)] = (''WHERE '' @ k @ '' = $1'', [v]))"
proof -
  have len: "length (spec_conditions 1 fs) = length (filter is_present (map snd fs))"
    by (rule spec_conditions_length)
  have empty_iff: "(spec_conditions 1 fs = []) = (filter is_present (map snd fs) = [])"
    using len by (metis length_0_conv)
  have clause: "fst (buildWhereClause fs) =
     (if filter is_present (map snd fs) = [] then []
      else ''WHERE '' @ join '' AND '' (spec_conditions 1 fs))"
    using empty_iff by (simp add: buildWhereClause_spec)
  have nil: "buildWhereClause [] = ([], [])"
    by (simp add: buildWhereClause_spec spec_params_def)
  have arr: "buildWhereClause [(k, JArr vs)] =
        (''WHERE '' @ k @ '' IN ('' @ join '', '' (map placeholder [1 ..< 1 + length vs]) @ '')'', vs)"
    by (simp add: buildWhereClause_spec spec_params_def)
  have wild: "CHR ''%'' \<in> set s \<longrightarrow>
        buildWhereClause [(k, JStr s)] = (''WHERE '' @ k @ '' ILIKE $1'', [JStr s])"
    by (simp add: buildWhereClause_spec spec_params_def placeholder_1)
  have plain: "is_present v \<and> shape_of v = PlainShape \<longrightarrow>
        buildWhereClause [(k, v)] = (''WHERE '' @ k @ '' = $1'', [v])"
    by (cases v) (simp_all add: buildWhereClause_spec spec_params_def placeholder_1)
  have one_each: "length (map placeholder [1 ..< 1 + length vs]) = length vs"
    by (simp only: length_map length_upt add_diff_cancel_left')
  from clause len nil arr one_each wild plain show ?thesis
    by blast
qed

lemma where_example_conditions:
  "spec_conditions 1
     [(''category'', JArr [JStr ''Snacks'', JStr ''Dairy'']), (''country'', JNull),
      (''name'', JStr ''%choc%''), (''is_npd'', JBool True)] =
   [''category IN ($1, $2)'', ''name ILIKE $3'', ''is_npd = $4'']"
  by code_simp

theorem buildWhereClause_by_shape_witness:
  "fst (buildWhereClause
     [(''category'', JArr [JStr ''Snacks'', JStr ''Dairy'']), (''country'', JNull),
      (''name'', JStr ''%choc%''), (''is_npd'', JBool True)]) =
     ''WHERE category IN ($1, $2) AND name ILIKE $3 AND is_npd = $4''
   \<and> CHR ''%'' \<in> set ''%choc%''
   \<and> buildWhereClause [(''name'', JStr ''%choc%'')] = (''WHERE name ILIKE $1'', [JStr ''%choc%''])
   \<and> is_present (JBool True) \<and> shape_of (JBool True) = PlainShape
   \<and> buildWhereClause [(''is_npd'', JBool True)] = (''WHERE is_npd = $1'', [JBool True])"
  using buildWhereClause_by_shape
    [of "[(''category'', JArr [JStr ''Snacks'', JStr ''Dairy'']), (''country'', JNull),
          (''name'', JStr ''%choc%''), (''is_npd'', JBool True)]"
        "''name''" "[]" "''%choc%''" "JBool True"]
    buildWhereClause_by_shape [of "[]" "''is_npd''" "[]" "''%choc%''" "JBool True"]
    where_example_conditions
  by simp

section \<open>Properties of bulkInsert and transaction\<close>











section \<open>Properties of create\<close>

lemma create_success:
  "store (insert_query 6 T data) = PgRows (r # rs) \<Longrightarrow> create store T data = Inr r"
  by (simp add: create_def create_try_def wrap_outcome_def)

lemma create_unique_violation:
  "store (insert_query 6 T data) = PgError msg (Some ''23505'') \<Longrightarrow>
   create store T data = Inl (DatabaseError (''Duplicate entry in '' @ T) (Some ''23505''))"
  by (simp add: create_def create_try_def wrap_outcome_def create_catch_def)

text \<open>Every error \<open>create\<close> throws is a \<open>DatabaseError\<close>.\<close>

lemma create_error_class:
  "create store T data = Inl e \<Longrightarrow> is_DatabaseError e"
  by (auto simp: create_def create_catch_def split: sum.splits if_splits)

text \<open>
  Claim C9 on a store that answers the \<open>INSERT\<close> with a uniqueness violation: \<open>create\<close>
  throws a \<open>DatabaseError\<close> with the message \<open>Duplicate entry in products\<close> and the code
  23505, not a \<open>DuplicateError\<close>; the catch block of \<open>createUser\<close> turns the same driver
  error into a \<open>DuplicateError\<close>.
\<close>

theorem create_unique_violation_class:
  "create (\<lambda>q. PgError ''duplicate key value violates unique constraint'' (Some ''23505'')
              :: jsval list pg_outcome)
     ''products'' [(''name'', JStr ''Choco Munch''), (''brand'', JStr ''ABC'')] =
     Inl (DatabaseError ''Duplicate entry in products'' (Some ''23505''))
   \<and> \<not> is_DuplicateError (DatabaseError ''Duplicate entry in products'' (Some ''23505''))
   \<and> createUser_catch
        (DatabaseError ''duplicate key value violates unique constraint'' (Some ''23505'')) =
      DuplicateError ''User with email or phone already exists''"
  by (simp add: create_unique_violation createUser_catch_def)

section \<open>Properties of calculateReward\<close>




section \<open>Properties of the two tier selections\<close>

lemma outranks_asym: "outranks d c \<Longrightarrow> \<not> outranks c d"
  by (auto simp: outranks_def)

lemma not_outranks_trans: "\<not> outranks x d \<Longrightarrow> \<not> outranks d c \<Longrightarrow> \<not> outranks x c"
  by (auto simp: outranks_def)

lemma first_ranked_None: "(first_ranked cs = None) = (cs = [])"
  by (cases cs) (auto split: option.splits)

lemma first_ranked_Some:
  "first_ranked cs = Some c \<Longrightarrow> c \<in> set cs \<and> (\<forall>d \<in> set cs. \<not> outranks d c)"
proof (induction cs arbitrary: c)
  case Nil
  then show ?case by simp
next
  case (Cons x cs)
  show ?case
  proof (cases "first_ranked cs")
    case None
    then have "cs = []" by (simp add: first_ranked_None)
    with Cons.prems None show ?thesis by (auto simp: outranks_def)
  next
    case (Some d)
    note ih = Cons.IH [OF Some]
    show ?thesis
    proof (cases "outranks d x")
      case True
      with Cons.prems Some have "c = d" by simp
      with ih True show ?thesis by (auto dest: outranks_asym)
    next
      case False
      with Cons.prems Some have "c = x" by simp
      with ih False show ?thesis
        by (auto simp: outranks_def intro: not_outranks_trans)
    qed
  qed
qed

text \<open>
  The store's \<open>update_user_tier\<close> does what claim C3 says: it returns the tier of a
  configured row whose three minimums are met and that no other such row outranks, and
  bronze when no row's minimums are met.
\<close>

lemma update_user_tier_selects_highest:
  "(\<exists>c \<in> set cfg. meets stats c \<and> update_user_tier cfg stats = tier c
        \<and> (\<forall>d \<in> set cfg. meets stats d \<longrightarrow> \<not> outranks d c))
   \<or> ((\<forall>c \<in> set cfg. \<not> meets stats c) \<and> update_user_tier cfg stats = Bronze)"
proof (cases "first_ranked (filter (meets stats) cfg)")
  case None
  then have "filter (meets stats) cfg = []" by (simp add: first_ranked_None)
  then have "\<forall>c \<in> set cfg. \<not> meets stats c" by (simp add: filter_empty_conv)
  with None show ?thesis by (simp add: update_user_tier_def)
next
  case (Some c)
  from first_ranked_Some [OF Some]
  have "c \<in> set cfg" "meets stats c" "\<forall>d \<in> set cfg. meets stats d \<longrightarrow> \<not> outranks d c"
    by auto
  moreover from Some have "update_user_tier cfg stats = tier c"
    by (simp add: update_user_tier_def)
  ultimately show ?thesis by blast
qed


section \<open>Properties of buildLimitClause\<close>







section \<open>Bound parameters\<close>

text \<open>
  For \<open>buildWhereClause\<close> the values are the parameter list, in filter order with lists
  flattened, the placeholder numbers run from 1 to the number of parameters, and the
  clause text depends only on the keys and on the shapes of the values.
\<close>

lemma buildWhereClause_params: "snd (buildWhereClause fs) = spec_params fs"
  by (simp add: buildWhereClause_spec)

lemma where_loop_paramIndex: "paramIndex (where_loop fs) = 1 + length (snd (buildWhereClause fs))"
  by (simp add: where_loop_def foldl_where_step buildWhereClause_spec)

lemma spec_conditions_same_shape:
  "map fst fs = map fst fs' \<Longrightarrow>
   map (\<lambda>kv. (is_present (snd kv), shape_of (snd kv))) fs =
   map (\<lambda>kv. (is_present (snd kv), shape_of (snd kv))) fs' \<Longrightarrow>
   spec_conditions i fs = spec_conditions i fs'"
proof (induction fs arbitrary: fs' i)
  case Nil
  then show ?case by simp
next
  case (Cons kv fs)
  then obtain kv' rest where fs': "fs' = kv' # rest" by (cases fs') auto
  obtain k v where kv: "kv = (k, v)" by (cases kv)
  obtain k' v' where kv': "kv' = (k', v')" by (cases kv')
  from Cons.prems fs' kv kv' have same: "k = k'" "is_present v = is_present v'"
    "shape_of v = shape_of v'"
    by simp_all
  from Cons.prems fs' have "spec_conditions j fs = spec_conditions j rest" for j
    by (intro Cons.IH) simp_all
  with same show ?case by (simp add: fs' kv kv')
qed

lemma buildWhereClause_text_ignores_values:
  "map fst fs = map fst fs' \<Longrightarrow>
   map (\<lambda>kv. (is_present (snd kv), shape_of (snd kv))) fs =
   map (\<lambda>kv. (is_present (snd kv), shape_of (snd kv))) fs' \<Longrightarrow>
   fst (buildWhereClause fs) = fst (buildWhereClause fs')"
  using spec_conditions_same_shape [of fs fs' 1]
  by (simp add: buildWhereClause_spec)

text \<open>
  Claim C1 on \<open>ProductRepository.search\<close> with the filter \<open>category = [Snacks, Dairy]\<close> and
  no pagination. The values are in the parameter list, followed by the limit 20 and the
  offset 0, but the query text refers to them as \<open>1\<close>, \<open>2\<close>, \<open>3\<close> and \<open>4\<close>: it holds no
  dollar sign at all. \<open>buildWhereClause\<close> writes \<open>$1\<close> and \<open>$2\<close> for the same filter.
\<close>

theorem search_text_has_no_placeholders:
  "mainQuery (search (no_filters\<lparr>category := Some [''Snacks'', ''Dairy'']\<rparr>) no_pagination) =
     nl @ indent 6 @ ''SELECT * FROM products'' @ nl @
     indent 6 @ ''WHERE category IN (1, 2)'' @ nl @
     indent 6 @ ''ORDER BY created_at DESC'' @ nl @
     indent 6 @ ''LIMIT 3 OFFSET 4'' @ nl @
     indent 4
   \<and> mainParams (search (no_filters\<lparr>category := Some [''Snacks'', ''Dairy'']\<rparr>) no_pagination) =
     [JStr ''Snacks'', JStr ''Dairy'', JNum 20, JNum 0]
   \<and> CHR ''$'' \<notin> set (mainQuery
         (search (no_filters\<lparr>category := Some [''Snacks'', ''Dairy'']\<rparr>) no_pagination))
   \<and> buildWhereClause [(''category'', JArr [JStr ''Snacks'', JStr ''Dairy''])] =
     (''WHERE category IN ($1, $2)'', [JStr ''Snacks'', JStr ''Dairy''])"
  by code_simp

section \<open>Properties of findSimilarProducts\<close>

text \<open>The rows the query's \<open>WHERE\<close> keeps, each with its score, before ordering.\<close>

lemma findSimilarProducts_unfold:
  "findSimilarProducts sim products nm br t =
     take 10 (sort_key (\<lambda>r. - snd r)
       (map (\<lambda>p. (p, sim_score sim nm br p))
          (filter (\<lambda>p. sim_score sim nm br p > t \<and> verification_status p = Verified) products)))"
  by (simp add: findSimilarProducts_def)

lemma findSimilarProducts_member:
  assumes "r \<in> set (findSimilarProducts sim products nm br t)"
  shows "fst r \<in> set products \<and> verification_status (fst r) = Verified
         \<and> snd r = sim_score sim nm br (fst r) \<and> snd r > t"
proof -
  from assms have "r \<in> set (sort_key (\<lambda>r. - snd r)
       (map (\<lambda>p. (p, sim_score sim nm br p))
          (filter (\<lambda>p. sim_score sim nm br p > t \<and> verification_status p = Verified) products)))"
    unfolding findSimilarProducts_unfold by (rule in_set_takeD)
  then show ?thesis by auto
qed


lemma trgm_similarity_choco: "trgm_similarity ''Choco Munch'' ''Choco Munch'' = 1"
  by code_simp

lemma trgm_similarity_abc: "trgm_similarity ''ABC'' ''ABC'' = 1"
  by code_simp





text \<open>
  Claim C10. The duplicate detector returns verified rows only: whatever the candidate,
  the threshold and the similarity, a catalog product that is pending, rejected or
  flagged is not among the returned rows.
\<close>

theorem findSimilarProducts_only_verified:
  "(\<forall>r \<in> set (findSimilarProducts sim products nm br t). verification_status (fst r) = Verified)
   \<and> (verification_status p \<noteq> Verified \<longrightarrow>
        p \<notin> fst ` set (findSimilarProducts sim products nm br t))"
proof -
  have all: "\<forall>r \<in> set (findSimilarProducts sim products nm br t).
               verification_status (fst r) = Verified"
    using findSimilarProducts_member by blast
  then have "verification_status p \<noteq> Verified \<longrightarrow>
        p \<notin> fst ` set (findSimilarProducts sim products nm br t)"
    by auto
  with all show ?thesis by blast
qed

lemma choco_pending_score:
  "sim_score trgm_similarity ''Choco Munch'' ''ABC'' choco_pending = 2"
  by (simp add: sim_score_def choco_pending_def trgm_similarity_choco trgm_similarity_abc)

theorem findSimilarProducts_only_verified_witness:
  "verification_status choco_pending \<noteq> Verified
   \<and> sim_score trgm_similarity ''Choco Munch'' ''ABC'' choco_pending = 2
   \<and> choco_pending \<notin> fst ` set (findSimilarProducts trgm_similarity
        [choco_pending, milk_verified] ''Choco Munch'' ''ABC'' (1 / 10))"
  using findSimilarProducts_only_verified
      [where sim = trgm_similarity and products = "[choco_pending, milk_verified]"
         and nm = "''Choco Munch''" and br = "''ABC''" and t = "1 / 10" and p = choco_pending]
    choco_pending_score
  by (simp add: choco_pending_def)

section \<open>Properties of the submission route\<close>

lemma like_match_plain:
  "no_wildcards p \<Longrightarrow> like_match p t = Some (map lower_char t = map lower_char p)"
proof (induction p arbitrary: t)
  case Nil
  then show ?case by simp
next
  case (Cons c p)
  then have c: "c \<noteq> CHR ''%''" "c \<noteq> CHR ''_''" "c \<noteq> CHR 0x5C" and p: "no_wildcards p"
    by (simp_all add: no_wildcards_def)
  show ?case
  proof (cases t)
    case Nil
    with c show ?thesis by simp
  next
    case (Cons d ds)
    with c Cons.IH [OF p, of ds] show ?thesis by auto
  qed
qed

lemma pg_ilike_plain:
  "no_wildcards pattern \<Longrightarrow> pg_ilike txt pattern = Some (same_ignoring_case txt pattern)"
  by (simp add: pg_ilike_def like_match_plain same_ignoring_case_def)

lemma duplicate_row_plain:
  "no_wildcards (body_product_name req) \<Longrightarrow> no_wildcards (body_brand req) \<Longrightarrow>
   duplicate_row now req s = Some (exact_recent_match now req s)"
  by (auto simp: duplicate_row_def pg_ilike_plain exact_recent_match_def split: bool.splits)

lemma duplicateCheck_plain:
  "no_wildcards (body_product_name req) \<Longrightarrow> no_wildcards (body_brand req) \<Longrightarrow>
   duplicateCheck now req rows = Some (filter (exact_recent_match now req) rows)"
  by (induction rows) (simp_all add: duplicate_row_plain)

text \<open>
  When neither the name nor the brand holds \<open>%\<close>, \<open>_\<close> or a backslash, the handler does
  what claim C4 says: an exact recent match of the same user stops the submission before
  the insert, with status 409 (or 400 when validation already failed).
\<close>

lemma create_submission_rejects_plain_match:
  assumes "no_wildcards (body_product_name req)" "no_wildcards (body_brand req)"
    and "s \<in> set (npd_submissions db)" "exact_recent_match now req s"
  shows "snd (create_submission now req db) = db
         \<and> fst (create_submission now req db) \<in> {400, 409}"
proof -
  from assms(3,4) have "filter (exact_recent_match now req) (npd_submissions db) \<noteq> []"
    by (auto simp: filter_empty_conv)
  with assms(1,2) show ?thesis
    by (simp add: create_submission_def duplicateCheck_plain)
qed

text \<open>
  Claim C4 on a name with a backslash. User \<open>u1\<close> submitted \<open>(AC\DC, Acme)\<close> at second 1000
  and submits the same pair again one hour later. The stored row is an exact match made
  within the preceding 24 hours, but the stored name does not match the pattern \<open>AC\DC\<close>
  (which the store reads as \<open>ACDC\<close>), so the check finds nothing, the handler answers 201
  and a second row is inserted. A resubmission of \<open>(Choco Munch, ABC)\<close> in another letter
  case is answered 409 and leaves the store as it was.
\<close>

theorem create_submission_backslash_accepted:
  "acdc_row \<in> set [acdc_row]
   \<and> exact_recent_match 4600 acdc_request acdc_row
   \<and> pg_ilike acdc acdc = Some False
   \<and> fst (create_submission 4600 acdc_request
        \<lparr>npd_submissions = [acdc_row], users_total_submissions = (\<lambda>u. 1)\<rparr>) = 201
   \<and> npd_submissions (snd (create_submission 4600 acdc_request
        \<lparr>npd_submissions = [acdc_row], users_total_submissions = (\<lambda>u. 1)\<rparr>)) =
      [acdc_row, acdc_row\<lparr>created_at := 4600\<rparr>]
   \<and> fst (create_submission 4600 choco_request
        \<lparr>npd_submissions = [choco_row], users_total_submissions = (\<lambda>u. 1)\<rparr>) = 409
   \<and> npd_submissions (snd (create_submission 4600 choco_request
        \<lparr>npd_submissions = [choco_row], users_total_submissions = (\<lambda>u. 1)\<rparr>)) = [choco_row]"
  by code_simp

end
